theory Spec2Isabelle
  imports Main "HOL-Library.Word"
begin

unbundle bit_operations_syntax

section \<open>PCI bridge discovery and address-window decoding (dev/bus/pci/bus_mgr/bridge.cpp)\<close>

subsection \<open>Status codes\<close>

text \<open>
  \<open>status_t\<close> is the kernel's signed status type. The source tests it in two ways:
  \<open>err != NO_ERROR\<close> after the two register reads and \<open>err < 0\<close> after the structured
  read and after the bus scan; both tests are kept as written.
\<close>

type_synonym status_t = int

definition NO_ERROR :: status_t where
  \<comment> \<open>Modelled from the spec: the header lk/err.h is not among the sources; success is the
      status zero and every error code is negative.\<close>
  "NO_ERROR = 0"

definition ERR_NOT_FOUND :: status_t where
  \<comment> \<open>Modelled from the spec: the header lk/err.h is not among the sources; NotFound is a
      negative error code (the kernel's value is -2; no result depends on which one).\<close>
  "ERR_NOT_FOUND = - 2"

subsection \<open>Configuration space\<close>

text \<open>
  The declarations of dev/bus/pci.h are not among the sources. The records below hold the
  fields that bridge.cpp reads, with the widths the specification gives them: bus numbers
  are bytes, the three base/limit pairs are 16-bit fields, the two prefetchable extension
  registers are 32-bit. A narrower unsigned register is covered as well: its values are
  values of the 16-bit field, with the same order and the same decoding.
\<close>

record pci_location_t =
  segment :: "16 word"
  bus :: "8 word"
  dev :: "8 word"
  fn :: "8 word"

record type1_t =
  primary_bus :: "8 word"
  secondary_bus :: "8 word"
  subordinate_bus :: "8 word"
  io_base :: "16 word"
  io_limit :: "16 word"
  memory_base :: "16 word"
  memory_limit :: "16 word"
  prefetchable_memory_base :: "16 word"
  prefetchable_memory_limit :: "16 word"
  prefetchable_base_upper :: "32 word"
  prefetchable_limit_upper :: "32 word"

record pci_config_t =
  vendor_id :: "16 word"
  device_id :: "16 word"
  header_type :: "8 word"
  type1 :: type1_t

definition PCI_CONFIG_VENDOR_ID :: nat where
  \<comment> \<open>Modelled from the spec: register offset of the vendor id (dev/bus/pci.h is absent).\<close>
  "PCI_CONFIG_VENDOR_ID = 0"

definition PCI_CONFIG_HEADER_TYPE :: nat where
  \<comment> \<open>Modelled from the spec: register offset of the header type (dev/bus/pci.h is absent).\<close>
  "PCI_CONFIG_HEADER_TYPE = 14"

definition zero_type1 :: type1_t where
  "zero_type1 = \<lparr>primary_bus = 0, secondary_bus = 0, subordinate_bus = 0,
     io_base = 0, io_limit = 0, memory_base = 0, memory_limit = 0,
     prefetchable_memory_base = 0, prefetchable_memory_limit = 0,
     prefetchable_base_upper = 0, prefetchable_limit_upper = 0\<rparr>"

definition zero_config :: pci_config_t where
  "zero_config = \<lparr>vendor_id = 0, device_id = 0, header_type = 0, type1 = zero_type1\<rparr>"

subsection \<open>The bridge object\<close>

text \<open>
  Pointers are addresses: a \<open>bridge *\<close> is a key of the heap of bridge objects, a
  \<open>bus *\<close> is an opaque handle handed out by the bus scan. A null pointer is \<open>None\<close>.
  The members \<open>loc_\<close>, \<open>bus_\<close>, \<open>config_\<close> and \<open>secondary_bus_\<close> are written with the
  suffix \<open>_m\<close>, and the accessors \<open>secondary_bus()\<close> and \<open>subordinate_bus()\<close> with the
  suffix \<open>_br\<close>, since the field names of the configuration layout are taken.
\<close>

type_synonym bridge_ptr = nat
type_synonym bus_ptr = nat

record 'a range_t =
  base :: 'a
  limit :: 'a

record bridge =
  loc_m :: pci_location_t
  bus_m :: "bus_ptr option"
  config_m :: pci_config_t
  secondary_bus_m :: "bus_ptr option"

definition bridge_ctor :: "pci_location_t \<Rightarrow> bus_ptr option \<Rightarrow> bridge" where
  \<comment> \<open>\<open>bridge::bridge(loc, bus) : device(loc, bus)\<close>. The configuration snapshot is not yet
      read at this point; the model fills it with zeros, and \<open>probe\<close> overwrites it before
      anything reads it. The secondary-bus reference starts unset.\<close>
  "bridge_ctor loc parent = \<lparr>loc_m = loc, bus_m = parent, config_m = zero_config, secondary_bus_m = None\<rparr>"

definition secondary_bus_br :: "bridge \<Rightarrow> 8 word" where
  "secondary_bus_br br = secondary_bus (type1 (config_m br))"

definition subordinate_bus_br :: "bridge \<Rightarrow> 8 word" where
  "subordinate_bus_br br = subordinate_bus (type1 (config_m br))"

definition add_bus :: "bus_ptr \<Rightarrow> bridge \<Rightarrow> bridge" where
  \<comment> \<open>Modelled from the spec: \<open>bridge::add_bus\<close> is declared in bridge.h, which is absent; the
      returned bus is attached as the bridge's secondary-bus reference.\<close>
  "add_bus b br = br\<lparr>secondary_bus_m := Some b\<rparr>"

subsection \<open>Address-window decoders\<close>

text \<open>
  \<open>(uint32_t)x >> 4 << 12\<close> is \<open>push_bit 12 (drop_bit 4 (ucast x))\<close> on 32-bit words; the
  comparison of the raw fields is the unsigned one.
\<close>

definition io_range :: "bridge \<Rightarrow> 32 word range_t" where
  "io_range br =
     (if io_limit (type1 (config_m br)) < io_base (type1 (config_m br))
      then \<lparr>base = 0, limit = 0\<rparr>
      else \<lparr>base = push_bit 12 (drop_bit 4 (ucast (io_base (type1 (config_m br))) :: 32 word)),
            limit = push_bit 12 (drop_bit 4 (ucast (io_limit (type1 (config_m br))) :: 32 word))
                      OR 0xfff\<rparr>)"

definition mem_range :: "bridge \<Rightarrow> 32 word range_t" where
  "mem_range br =
     (if memory_limit (type1 (config_m br)) < memory_base (type1 (config_m br))
      then \<lparr>base = 0, limit = 0\<rparr>
      else \<lparr>base = push_bit 20 (drop_bit 4 (ucast (memory_base (type1 (config_m br))) :: 32 word)),
            limit = push_bit 20 (drop_bit 4 (ucast (memory_limit (type1 (config_m br))) :: 32 word))
                      OR 0xfffff\<rparr>)"

definition prefetch_range :: "bridge \<Rightarrow> 64 word range_t" where
  "prefetch_range br =
     (if prefetchable_memory_limit (type1 (config_m br))
           < prefetchable_memory_base (type1 (config_m br))
      then \<lparr>base = 0, limit = 0\<rparr>
      else
        let is_64 = (prefetchable_memory_base (type1 (config_m br)) AND 0xf = 1);
            base0 = push_bit 20
                      (drop_bit 4 (ucast (prefetchable_memory_base (type1 (config_m br))) :: 64 word));
            base1 = (if is_64
                     then base0 OR push_bit 32
                            (ucast (prefetchable_base_upper (type1 (config_m br))) :: 64 word)
                     else base0);
            limit0 = push_bit 20
                       (drop_bit 4 (ucast (prefetchable_memory_limit (type1 (config_m br))) :: 64 word))
                     OR 0xfffff;
            limit1 = (if is_64
                      then limit0 OR push_bit 32
                             (ucast (prefetchable_limit_upper (type1 (config_m br))) :: 64 word)
                      else limit0)
        in \<lparr>base = base1, limit = limit1\<rparr>)"

subsection \<open>Kernel state and external collaborators\<close>

text \<open>
  Every call that \<open>probe\<close> makes outside this file is logged, in program order, so that
  the order of the calls and the absence of a call are statements about the log. The
  capability walker \<open>probe_capabilities\<close> is such a call: its status is ignored by
  \<open>probe\<close>, and the capability data it collects is not part of the bridge record here.
\<close>

datatype event =
    Read_config_half pci_location_t nat
  | Read_config_byte pci_location_t nat
  | New_bridge bridge_ptr
  | Read_config pci_location_t
  | Delete_bridge bridge_ptr
  | Probe_capabilities bridge_ptr
  | Bus_probe pci_location_t bridge_ptr
  | Add_bus bridge_ptr bus_ptr
  | Add_to_global_list bus_ptr

record kstate =
  bridges :: "bridge_ptr \<rightharpoonup> bridge"
  next_bridge :: bridge_ptr
  global_bus_list :: "bus_ptr list"
  trace :: "event list"

text \<open>
  The collaborators are parameters of the model: the three configuration-space reads
  return a status and the value read, the bus scan returns a status and the new bus
  (possibly null). What the nested scan does to the kernel state is outside this file.
\<close>

record platform =
  pci_read_config_half :: "pci_location_t \<Rightarrow> nat \<Rightarrow> status_t \<times> 16 word"
  pci_read_config_byte :: "pci_location_t \<Rightarrow> nat \<Rightarrow> status_t \<times> 8 word"
  pci_read_config :: "pci_location_t \<Rightarrow> status_t \<times> pci_config_t"
  bus_probe :: "pci_location_t \<Rightarrow> bridge_ptr \<Rightarrow> status_t \<times> bus_ptr option"

definition log :: "event \<Rightarrow> kstate \<Rightarrow> kstate" where
  "log e s = s\<lparr>trace := trace s @ [e]\<rparr>"

definition new_bridge :: "bridge \<Rightarrow> kstate \<Rightarrow> bridge_ptr \<times> kstate" where
  \<comment> \<open>\<open>new bridge(...)\<close>: the object is placed at the allocator's next address.\<close>
  "new_bridge br s =
     (next_bridge s,
      log (New_bridge (next_bridge s))
        (s\<lparr>bridges := (bridges s)(next_bridge s \<mapsto> br), next_bridge := Suc (next_bridge s)\<rparr>))"

definition store_bridge :: "bridge_ptr \<Rightarrow> bridge \<Rightarrow> kstate \<Rightarrow> kstate" where
  \<comment> \<open>A write through the pointer \<open>br\<close>.\<close>
  "store_bridge a br s = s\<lparr>bridges := (bridges s)(a \<mapsto> br)\<rparr>"

definition delete_bridge :: "bridge_ptr \<Rightarrow> kstate \<Rightarrow> kstate" where
  "delete_bridge a s = log (Delete_bridge a) (s\<lparr>bridges := (bridges s)(a := None)\<rparr>)"

definition add_to_global_list :: "bus_ptr \<Rightarrow> kstate \<Rightarrow> kstate" where
  \<comment> \<open>Modelled from the spec: \<open>bus::add_to_global_list\<close> lives in bus.h/bus.cpp, which are
      absent; the bus is registered in the process-wide registry of all buses.\<close>
  "add_to_global_list b s = log (Add_to_global_list b) (s\<lparr>global_bus_list := global_bus_list s @ [b]\<rparr>)"

datatype fault = Null_bus_dereferenced

subsection \<open>bridge::probe\<close>

text \<open>
  The result is the returned status, the final value of \<open>*out_bridge\<close> and the new kernel
  state. The only path without a return is a bus scan that reports success with a null
  bus: \<open>DEBUG_ASSERT(new_bus)\<close> fires, or the null pointer is dereferenced.
\<close>

definition probe ::
  "platform \<Rightarrow> pci_location_t \<Rightarrow> bus_ptr option \<Rightarrow> kstate
     \<Rightarrow> fault + (status_t \<times> bridge_ptr option \<times> kstate)" where
  "probe p loc parent_bus s0 =
     (let (err1, vid) = pci_read_config_half p loc PCI_CONFIG_VENDOR_ID;
          s1 = log (Read_config_half loc PCI_CONFIG_VENDOR_ID) s0
      in if err1 \<noteq> NO_ERROR then Inr (ERR_NOT_FOUND, None, s1)
         else if vid = 0xffff then Inr (ERR_NOT_FOUND, None, s1)
         else
           let (err2, htype) = pci_read_config_byte p loc PCI_CONFIG_HEADER_TYPE;
               s2 = log (Read_config_byte loc PCI_CONFIG_HEADER_TYPE) s1
           in if err2 \<noteq> NO_ERROR then Inr (ERR_NOT_FOUND, None, s2)
              else
                let (a, s3) = new_bridge (bridge_ctor loc parent_bus) s2;
                    (err3, cfg) = pci_read_config p loc;
                    br = (bridge_ctor loc parent_bus)\<lparr>config_m := cfg\<rparr>;
                    s4 = log (Read_config loc) (store_bridge a br s3)
                in if err3 < 0 then Inr (err3, None, delete_bridge a s4)
                   else
                     let s5 = log (Probe_capabilities a) s4
                     in if secondary_bus_br br > 0 \<and> subordinate_bus_br br \<ge> secondary_bus_br br
                        then
                          let bus_location = \<lparr>segment = segment loc,
                                               bus = secondary_bus (type1 (config_m br)),
                                               dev = 0, fn = 0\<rparr>;
                              (err4, new_bus) = bus_probe p bus_location a;
                              s6 = log (Bus_probe bus_location a) s5
                          in if err4 < 0 then Inr (err4, Some a, s6)
                             else (case new_bus of
                                     None \<Rightarrow> Inl Null_bus_dereferenced
                                   | Some b \<Rightarrow>
                                       Inr (NO_ERROR, Some a,
                                            add_to_global_list b
                                              (log (Add_bus a b)
                                                 (store_bridge a (add_bus b br) s6))))
                        else Inr (NO_ERROR, Some a, s5))"

subsection \<open>Sample inputs\<close>

text \<open>
  Concrete configurations, platforms and states on which the general results below are
  exercised: a platform whose four collaborators return fixed answers, the empty kernel
  state at boot, a bridge with three open windows, and one whose 64-bit prefetchable
  window has a base extension above its limit extension.
\<close>

definition sample_loc :: pci_location_t where
  "sample_loc = \<lparr>segment = 0, bus = 0, dev = 3, fn = 0\<rparr>"

definition boot_state :: kstate where
  "boot_state = \<lparr>bridges = Map.empty, next_bridge = 0, global_bus_list = [], trace = []\<rparr>"

definition fixed_platform ::
  "status_t \<times> 16 word \<Rightarrow> status_t \<times> 8 word \<Rightarrow> status_t \<times> pci_config_t
     \<Rightarrow> status_t \<times> bus_ptr option \<Rightarrow> platform" where
  "fixed_platform v h c b =
     \<lparr>pci_read_config_half = (\<lambda>l r. v), pci_read_config_byte = (\<lambda>l r. h),
      pci_read_config = (\<lambda>l. c), bus_probe = (\<lambda>l a. b)\<rparr>"

definition scenario_config :: "8 word \<Rightarrow> 8 word \<Rightarrow> pci_config_t" where
  "scenario_config sec sub =
     \<lparr>vendor_id = 0x8086, device_id = 0, header_type = 1,
      type1 = zero_type1\<lparr>secondary_bus := sec, subordinate_bus := sub\<rparr>\<rparr>"

definition scenario_bridge :: "8 word \<Rightarrow> 8 word \<Rightarrow> bus_ptr option \<Rightarrow> bridge" where
  "scenario_bridge sec sub b =
     \<lparr>loc_m = sample_loc, bus_m = None, config_m = scenario_config sec sub, secondary_bus_m = b\<rparr>"

definition bridge_of :: "type1_t \<Rightarrow> bridge" where
  "bridge_of t =
     \<lparr>loc_m = sample_loc, bus_m = None, config_m = zero_config\<lparr>type1 := t\<rparr>, secondary_bus_m = None\<rparr>"

definition open_windows :: type1_t where
  "open_windows = zero_type1\<lparr>secondary_bus := 1, subordinate_bus := 1,
      io_base := 0x0020, io_limit := 0x0030,
      memory_base := 0xE000, memory_limit := 0xE010,
      prefetchable_memory_base := 0x0001, prefetchable_memory_limit := 0x0011,
      prefetchable_base_upper := 4, prefetchable_limit_upper := 4\<rparr>"

definition inverted_window :: type1_t where
  "inverted_window = zero_type1\<lparr>prefetchable_memory_base := 0x0001,
      prefetchable_memory_limit := 0x0001,
      prefetchable_base_upper := 1, prefetchable_limit_upper := 0\<rparr>"

section \<open>Auxiliary facts\<close>

lemmas probe_unfold = probe_def Let_def new_bridge_def log_def store_bridge_def delete_bridge_def
  add_to_global_list_def add_bus_def bridge_ctor_def secondary_bus_br_def subordinate_bus_br_def

lemmas sample_defs = fixed_platform_def scenario_config_def sample_loc_def boot_state_def
  scenario_bridge_def bridge_of_def open_windows_def inverted_window_def
  zero_type1_def zero_config_def

subsection \<open>Masks\<close>

lemma field_mask_16: "(0xFFF0 :: 16 word) = push_bit 4 (mask 12)"
  by (simp add: mask_eq_exp_minus_1)

lemma low_mask_20: "(0xFFFFF :: 'a::len word) = mask 20"
  by (simp add: mask_eq_exp_minus_1)

lemma low_mask_12: "(0xFFF :: 'a::len word) = mask 12"
  by (simp add: mask_eq_exp_minus_1)

lemma shift_field_eq_mask_shift:
  fixes x :: "16 word"
  shows "push_bit 20 (drop_bit 4 (ucast x :: 32 word)) = push_bit 16 (ucast (x AND 0xFFF0))"
  unfolding field_mask_16 by (rule bit_word_eqI) (auto simp add: bit_simps)

lemma aligned_12: "push_bit 12 (w :: 32 word) AND 0xfff = 0"
  unfolding low_mask_12 by (rule bit_word_eqI) (auto simp add: bit_simps)

lemma aligned_20: "push_bit 20 (w :: 32 word) AND 0xfffff = 0"
  unfolding low_mask_20 by (rule bit_word_eqI) (auto simp add: bit_simps)

lemma ones_12: "(w OR 0xfff) AND 0xfff = (0xfff :: 32 word)"
  unfolding low_mask_12 by (rule bit_word_eqI) (auto simp add: bit_simps)

lemma ones_20: "(w OR 0xfffff) AND 0xfffff = (0xfffff :: 32 word)"
  unfolding low_mask_20 by (rule bit_word_eqI) (auto simp add: bit_simps)

subsection \<open>The shifted field as a number\<close>

text \<open>
  A 16-bit field, its low nibble dropped and the rest shifted left by at most 20 places,
  fits into 32 bits: the shift loses nothing, so the shifted value is monotone in the field.
\<close>

lemma unat_shift_field:
  fixes x :: "16 word"
  assumes "k \<le> 20" and "32 \<le> LENGTH('a::len)"
  shows "unat (push_bit k (drop_bit 4 (ucast x :: 'a word))) = (unat x div 16) * 2 ^ k"
proof -
  have x16: "unat x < 2 ^ 16" using unsigned_less [of x] by simp
  then have "unat x div 16 < 2 ^ 12" by simp
  then have "(unat x div 16) * 2 ^ k < 2 ^ 12 * 2 ^ k"
    by (simp add: mult_less_mono1)
  also have "(2::nat) ^ 12 * 2 ^ k \<le> 2 ^ 12 * 2 ^ 20"
    using power_increasing [of k 20 "2::nat"] assms by simp
  also have "\<dots> = (2::nat) ^ 32" by simp
  also have "\<dots> \<le> 2 ^ LENGTH('a)"
    using power_increasing [of 32 "LENGTH('a)" "2::nat"] assms by simp
  finally have lt: "(unat x div 16) * 2 ^ k < 2 ^ LENGTH('a)" .
  have "(2::nat) ^ 16 \<le> 2 ^ LENGTH('a)"
    using power_increasing [of 16 "LENGTH('a)" "2::nat"] assms by simp
  with x16 have xl: "unat x < 2 ^ LENGTH('a)" by simp
  have "unat (push_bit k (drop_bit 4 (ucast x :: 'a word)))
        = take_bit LENGTH('a) (push_bit k (drop_bit 4 (take_bit LENGTH('a) (unat x))))"
    by (simp add: unsigned_push_bit_eq unat_drop_bit_eq unsigned_ucast_eq)
  also have "take_bit LENGTH('a) (unat x) = unat x"
    using xl by (simp add: take_bit_nat_eq_self)
  also have "push_bit k (drop_bit 4 (unat x)) = (unat x div 16) * 2 ^ k"
    by (simp add: drop_bit_eq_div push_bit_eq_mult)
  also have "take_bit LENGTH('a) ((unat x div 16) * 2 ^ k) = (unat x div 16) * 2 ^ k"
    using lt by (simp add: take_bit_nat_eq_self)
  finally show ?thesis .
qed

lemma shift_field_mono:
  fixes x y :: "16 word"
  assumes "x \<le> y" and "k \<le> 20" and "32 \<le> LENGTH('a::len)"
  shows "push_bit k (drop_bit 4 (ucast x :: 'a word)) \<le> push_bit k (drop_bit 4 (ucast y :: 'a word))"
  using assms by (simp add: word_le_nat_alt unat_shift_field div_le_mono)

lemma shift_field_le_limit:
  fixes x y :: "16 word"
  assumes "x \<le> y" and "k \<le> 20" and "32 \<le> LENGTH('a::len)"
  shows "push_bit k (drop_bit 4 (ucast x :: 'a word))
           \<le> push_bit k (drop_bit 4 (ucast y :: 'a word)) OR m"
  using shift_field_mono [OF assms] le_word_or2 order_trans by blast

lemma io_range_open:
  assumes "io_base (type1 (config_m br)) \<le> io_limit (type1 (config_m br))"
  shows "io_range br =
      \<lparr>base = push_bit 12 (drop_bit 4 (ucast (io_base (type1 (config_m br))))),
       limit = push_bit 12 (drop_bit 4 (ucast (io_limit (type1 (config_m br))))) OR 0xfff\<rparr>"
  using assms by (simp add: io_range_def not_less [symmetric])

lemma mem_range_open:
  assumes "memory_base (type1 (config_m br)) \<le> memory_limit (type1 (config_m br))"
  shows "mem_range br =
      \<lparr>base = push_bit 20 (drop_bit 4 (ucast (memory_base (type1 (config_m br))))),
       limit = push_bit 20 (drop_bit 4 (ucast (memory_limit (type1 (config_m br))))) OR 0xfffff\<rparr>"
  using assms by (simp add: mem_range_def not_less [symmetric])

lemma closed_window_is_empty:
  shows "io_limit (type1 (config_m br)) < io_base (type1 (config_m br))
           \<Longrightarrow> io_range br = \<lparr>base = 0, limit = 0\<rparr>"
    and "memory_limit (type1 (config_m br)) < memory_base (type1 (config_m br))
           \<Longrightarrow> mem_range br = \<lparr>base = 0, limit = 0\<rparr>"
    and "prefetchable_memory_limit (type1 (config_m br))
           < prefetchable_memory_base (type1 (config_m br))
           \<Longrightarrow> prefetch_range br = \<lparr>base = 0, limit = 0\<rparr>"
  by (simp_all add: io_range_def mem_range_def prefetch_range_def)

lemma io_range_ordered: "base (io_range br) \<le> limit (io_range br)"
proof (cases "io_limit (type1 (config_m br)) < io_base (type1 (config_m br))")
  case True
  then show ?thesis by (simp add: io_range_def)
next
  case False
  then have le: "io_base (type1 (config_m br)) \<le> io_limit (type1 (config_m br))" by simp
  show ?thesis unfolding io_range_open [OF le] using le by (simp add: shift_field_le_limit)
qed

lemma mem_range_ordered: "base (mem_range br) \<le> limit (mem_range br)"
proof (cases "memory_limit (type1 (config_m br)) < memory_base (type1 (config_m br))")
  case True
  then show ?thesis by (simp add: mem_range_def)
next
  case False
  then have le: "memory_base (type1 (config_m br)) \<le> memory_limit (type1 (config_m br))" by simp
  show ?thesis unfolding mem_range_open [OF le] using le by (simp add: shift_field_le_limit)
qed

subsection \<open>The two halves of a prefetchable address\<close>

lemma pf_low_hi:
  fixes x :: "16 word"
  shows "drop_bit 32 (push_bit 20 (drop_bit 4 (ucast x :: 64 word))) = 0"
    and "drop_bit 32 (push_bit 20 (drop_bit 4 (ucast x :: 64 word)) OR 0xfffff) = 0"
  unfolding low_mask_20
  by (rule bit_word_eqI; auto simp add: bit_simps dest: bit_imp_le_length)+

lemma pf_low_lo:
  fixes x :: "16 word"
  shows "take_bit 32 (push_bit 20 (drop_bit 4 (ucast x :: 64 word)))
           = push_bit 20 (drop_bit 4 (ucast x))"
    and "take_bit 32 (push_bit 20 (drop_bit 4 (ucast x :: 64 word)) OR 0xfffff)
           = push_bit 20 (drop_bit 4 (ucast x)) OR 0xfffff"
  unfolding low_mask_20
  by (rule bit_word_eqI; auto simp add: bit_simps dest: bit_imp_le_length)+

lemma pf_ext_hi:
  fixes u :: "32 word"
  shows "drop_bit 32 (push_bit 32 (ucast u :: 64 word)) = ucast u"
  by (rule bit_word_eqI) (auto simp add: bit_simps dest: bit_imp_le_length)

lemma pf_ext_lo:
  fixes w :: "64 word"
  shows "take_bit 32 (push_bit 32 w) = 0"
  by (rule bit_word_eqI) (auto simp add: bit_simps dest: bit_imp_le_length)

lemma unat_ucast_32_64:
  fixes u :: "32 word"
  shows "unat (ucast u :: 64 word) = unat u"
proof -
  have "unat u < 2 ^ 32" using unsigned_less [of u] by simp
  then have "unat u < 2 ^ 64" by simp
  then show ?thesis
    by (simp add: unsigned_ucast_eq take_bit_nat_eq_self)
qed

lemma word64_le_by_halves:
  fixes x y :: "64 word"
  assumes "drop_bit 32 x \<le> drop_bit 32 y" and "take_bit 32 x \<le> take_bit 32 y"
  shows "x \<le> y"
proof -
  from assms(1) have "drop_bit 32 (unat x) \<le> drop_bit 32 (unat y)"
    by (simp only: word_le_nat_alt unat_drop_bit_eq)
  then have hi: "unat x div 2 ^ 32 \<le> unat y div 2 ^ 32"
    by (simp only: drop_bit_eq_div)
  from assms(2) have "take_bit 32 (unat x) \<le> take_bit 32 (unat y)"
    by (simp only: word_le_nat_alt unsigned_take_bit_eq)
  then have lo: "unat x mod 2 ^ 32 \<le> unat y mod 2 ^ 32"
    by (simp only: take_bit_eq_mod)
  have "unat x = 2 ^ 32 * (unat x div 2 ^ 32) + unat x mod 2 ^ 32" by simp
  also have "\<dots> \<le> 2 ^ 32 * (unat y div 2 ^ 32) + unat y mod 2 ^ 32"
    using hi lo by (intro add_mono mult_le_mono2)
  also have "\<dots> = unat y" by simp
  finally show ?thesis by (simp add: word_le_nat_alt)
qed

lemma word64_less_by_high:
  fixes x y :: "64 word"
  assumes "drop_bit 32 x < drop_bit 32 y"
  shows "x < y"
proof -
  from assms have "drop_bit 32 (unat x) < drop_bit 32 (unat y)"
    by (simp only: word_less_nat_alt unat_drop_bit_eq)
  then have hi: "unat x div 2 ^ 32 < unat y div 2 ^ 32"
    by (simp only: drop_bit_eq_div)
  then have "unat x < unat y"
    using div_le_mono [of "unat y" "unat x" "2 ^ 32"] by (cases "unat x < unat y") simp_all
  then show ?thesis by (simp add: word_less_nat_alt)
qed

lemma prefetch_range_open:
  assumes "prefetchable_memory_base (type1 (config_m br))
             \<le> prefetchable_memory_limit (type1 (config_m br))"
  shows "prefetch_range br =
     \<lparr>base = (if prefetchable_memory_base (type1 (config_m br)) AND 0xf = 1
               then push_bit 20 (drop_bit 4 (ucast (prefetchable_memory_base (type1 (config_m br)))))
                      OR push_bit 32 (ucast (prefetchable_base_upper (type1 (config_m br))))
               else push_bit 20 (drop_bit 4 (ucast (prefetchable_memory_base (type1 (config_m br)))))),
      limit = (if prefetchable_memory_base (type1 (config_m br)) AND 0xf = 1
               then (push_bit 20 (drop_bit 4 (ucast (prefetchable_memory_limit (type1 (config_m br)))))
                       OR 0xfffff)
                      OR push_bit 32 (ucast (prefetchable_limit_upper (type1 (config_m br))))
               else push_bit 20 (drop_bit 4 (ucast (prefetchable_memory_limit (type1 (config_m br)))))
                      OR 0xfffff)\<rparr>"
proof -
  from assms have "\<not> prefetchable_memory_limit (type1 (config_m br))
                       < prefetchable_memory_base (type1 (config_m br))"
    by (simp add: not_less)
  then show ?thesis by (simp add: prefetch_range_def Let_def)
qed

lemma pf_halves:
  assumes "prefetchable_memory_base (type1 (config_m br))
             \<le> prefetchable_memory_limit (type1 (config_m br))"
  shows "drop_bit 32 (base (prefetch_range br))
           = (if prefetchable_memory_base (type1 (config_m br)) AND 0xf = 1
              then ucast (prefetchable_base_upper (type1 (config_m br))) else 0)"
    and "drop_bit 32 (limit (prefetch_range br))
           = (if prefetchable_memory_base (type1 (config_m br)) AND 0xf = 1
              then ucast (prefetchable_limit_upper (type1 (config_m br))) else 0)"
    and "take_bit 32 (base (prefetch_range br))
           = push_bit 20 (drop_bit 4 (ucast (prefetchable_memory_base (type1 (config_m br)))))"
    and "take_bit 32 (limit (prefetch_range br))
           = push_bit 20 (drop_bit 4 (ucast (prefetchable_memory_limit (type1 (config_m br)))))
               OR 0xfffff"
  by (simp_all add: prefetch_range_open [OF assms] pf_ext_hi pf_ext_lo pf_low_hi pf_low_lo)

lemma prefetch_range_ordered:
  assumes "\<not> (prefetchable_memory_base (type1 (config_m br)) AND 0xf = 1
              \<and> prefetchable_limit_upper (type1 (config_m br))
                   < prefetchable_base_upper (type1 (config_m br)))"
  shows "base (prefetch_range br) \<le> limit (prefetch_range br)"
proof (cases "prefetchable_memory_limit (type1 (config_m br))
                < prefetchable_memory_base (type1 (config_m br))")
  case True
  then show ?thesis by (simp add: prefetch_range_def)
next
  case False
  then have le: "prefetchable_memory_base (type1 (config_m br))
                   \<le> prefetchable_memory_limit (type1 (config_m br))"
    by simp
  have "push_bit 20 (drop_bit 4 (ucast (prefetchable_memory_base (type1 (config_m br))) :: 64 word))
          \<le> push_bit 20 (drop_bit 4 (ucast (prefetchable_memory_limit (type1 (config_m br)))))
               OR 0xfffff"
    by (rule shift_field_le_limit) (use le in simp_all)
  then have lo: "take_bit 32 (base (prefetch_range br)) \<le> take_bit 32 (limit (prefetch_range br))"
    by (simp only: pf_halves [OF le])
  have hi: "drop_bit 32 (base (prefetch_range br)) \<le> drop_bit 32 (limit (prefetch_range br))"
  proof (cases "prefetchable_memory_base (type1 (config_m br)) AND 0xf = 1")
    case True
    with assms have "prefetchable_base_upper (type1 (config_m br))
                       \<le> prefetchable_limit_upper (type1 (config_m br))"
      by simp
    then have "(ucast (prefetchable_base_upper (type1 (config_m br))) :: 64 word)
                 \<le> ucast (prefetchable_limit_upper (type1 (config_m br)))"
      by (simp add: word_le_nat_alt unat_ucast_32_64)
    with True show ?thesis by (simp only: pf_halves [OF le] simp_thms if_True)
  next
    case False
    then show ?thesis by (simp only: pf_halves [OF le] simp_thms if_False order_refl)
  qed
  from hi lo show ?thesis by (rule word64_le_by_halves)
qed

lemma prefetch_range_inverted:
  assumes "prefetchable_memory_base (type1 (config_m br))
             \<le> prefetchable_memory_limit (type1 (config_m br))"
    and "prefetchable_memory_base (type1 (config_m br)) AND 0xf = 1"
    and "prefetchable_limit_upper (type1 (config_m br))
           < prefetchable_base_upper (type1 (config_m br))"
  shows "limit (prefetch_range br) < base (prefetch_range br)"
proof -
  from assms(3) have "(ucast (prefetchable_limit_upper (type1 (config_m br))) :: 64 word)
                        < ucast (prefetchable_base_upper (type1 (config_m br)))"
    by (simp add: word_less_nat_alt unat_ucast_32_64)
  with assms(2) have "drop_bit 32 (limit (prefetch_range br)) < drop_bit 32 (base (prefetch_range br))"
    by (simp only: pf_halves [OF assms(1)] simp_thms if_True)
  then show ?thesis by (rule word64_less_by_high)
qed

section \<open>The address-window decoders\<close>

text \<open>
  Claim C2. For a memory window whose raw base field \<open>b\<close> does not exceed its raw limit
  field \<open>l\<close>, the decoded base is \<open>b AND 0xFFF0\<close> moved up by 16 places (field bits 15..4
  become address bits 31..20) and the decoded limit is \<open>l AND 0xFFF0\<close> moved up likewise
  and OR-ed with \<open>0xFFFFF\<close>.
\<close>

theorem mem_range_decoded:
  assumes "memory_base (type1 (config_m br)) \<le> memory_limit (type1 (config_m br))"
  shows "mem_range br =
           \<lparr>base = push_bit 16 (ucast (memory_base (type1 (config_m br)) AND 0xFFF0)),
            limit = push_bit 16 (ucast (memory_limit (type1 (config_m br)) AND 0xFFF0)) OR 0xFFFFF\<rparr>"
  by (simp add: mem_range_open [OF assms] shift_field_eq_mask_shift)

theorem mem_range_decoded_witness:
  "memory_base (type1 (config_m (bridge_of open_windows)))
     \<le> memory_limit (type1 (config_m (bridge_of open_windows)))
   \<and> mem_range (bridge_of open_windows) = \<lparr>base = 0xE0000000, limit = 0xE01FFFFF\<rparr>"
proof -
  have h: "memory_base (type1 (config_m (bridge_of open_windows)))
             \<le> memory_limit (type1 (config_m (bridge_of open_windows)))"
    by (simp add: sample_defs)
  from mem_range_decoded [OF h] have "mem_range (bridge_of open_windows)
      = \<lparr>base = push_bit 16 (ucast ((0xE000 :: 16 word) AND 0xFFF0)),
         limit = push_bit 16 (ucast ((0xE010 :: 16 word) AND 0xFFF0)) OR 0xFFFFF\<rparr>"
    by (simp add: sample_defs)
  then show ?thesis using h by simp
qed

text \<open>
  Claim C3. The first half of the claim holds: each decoder returns the empty range
  \<open>{0, 0}\<close> when the raw limit field is below the raw base field, and the I/O decoder, the
  memory decoder and the 32-bit path of the prefetchable decoder never return a range
  whose limit is below its base (lemmas \<open>closed_window_is_empty\<close>, \<open>io_range_ordered\<close>,
  \<open>mem_range_ordered\<close>, \<open>prefetch_range_ordered\<close>). The second half fails on the 64-bit
  path of \<open>prefetch_range\<close>: the guard that maps a closed window to \<open>{0, 0}\<close> compares
  the 16-bit fields only and leaves out the two extension registers. At the input with
  base field \<open>0x0001\<close>, limit field \<open>0x0001\<close>, base extension 1 and limit extension 0 the
  raw fields are in order, so the guard does not fire, and the decoder returns base
  \<open>0x100000000\<close> and limit \<open>0xFFFFF\<close>: an interval of negative width.
\<close>

theorem prefetch_range_negative_width:
  "\<not> prefetchable_memory_limit (type1 (config_m (bridge_of inverted_window)))
       < prefetchable_memory_base (type1 (config_m (bridge_of inverted_window)))
   \<and> prefetchable_memory_base (type1 (config_m (bridge_of inverted_window))) AND 0xf = 1
   \<and> prefetchable_base_upper (type1 (config_m (bridge_of inverted_window))) = 1
   \<and> prefetchable_limit_upper (type1 (config_m (bridge_of inverted_window))) = 0
   \<and> prefetch_range (bridge_of inverted_window) = \<lparr>base = 0x100000000, limit = 0xFFFFF\<rparr>
   \<and> limit (prefetch_range (bridge_of inverted_window))
       < base (prefetch_range (bridge_of inverted_window))"
  by (simp add: prefetch_range_def sample_defs)

text \<open>
  Claim C4. For a prefetchable window whose raw limit field is not below its raw base
  field: when the low nibble of the base field is 1, bits 32 and above of the decoded base
  are the base extension register and bits 32 and above of the decoded limit are the limit
  extension register; otherwise bits 32 and above of both are zero, whatever the extension
  registers hold. In both cases the low 32 bits are the 1 MiB decoding of the fields.
\<close>

theorem prefetch_range_upper_bits:
  assumes "prefetchable_memory_base (type1 (config_m br))
             \<le> prefetchable_memory_limit (type1 (config_m br))"
  shows "(prefetchable_memory_base (type1 (config_m br)) AND 0xf = 1 \<longrightarrow>
            drop_bit 32 (base (prefetch_range br))
              = ucast (prefetchable_base_upper (type1 (config_m br)))
          \<and> drop_bit 32 (limit (prefetch_range br))
              = ucast (prefetchable_limit_upper (type1 (config_m br))))
       \<and> (prefetchable_memory_base (type1 (config_m br)) AND 0xf \<noteq> 1 \<longrightarrow>
            drop_bit 32 (base (prefetch_range br)) = 0
          \<and> drop_bit 32 (limit (prefetch_range br)) = 0)
       \<and> take_bit 32 (base (prefetch_range br))
            = push_bit 20 (drop_bit 4 (ucast (prefetchable_memory_base (type1 (config_m br)))))
       \<and> take_bit 32 (limit (prefetch_range br))
            = push_bit 20 (drop_bit 4 (ucast (prefetchable_memory_limit (type1 (config_m br)))))
                OR 0xfffff"
  by (simp add: pf_halves [OF assms])

theorem prefetch_range_upper_bits_witness:
  "prefetchable_memory_base (type1 (config_m (bridge_of open_windows)))
     \<le> prefetchable_memory_limit (type1 (config_m (bridge_of open_windows)))
   \<and> prefetchable_memory_base (type1 (config_m (bridge_of open_windows))) AND 0xf = 1
   \<and> drop_bit 32 (base (prefetch_range (bridge_of open_windows))) = 4
   \<and> drop_bit 32 (limit (prefetch_range (bridge_of open_windows))) = 4
   \<and> prefetchable_memory_base (type1 (config_m (bridge_of (open_windows\<lparr>prefetchable_memory_base := 0\<rparr>))))
     \<le> prefetchable_memory_limit (type1 (config_m (bridge_of (open_windows\<lparr>prefetchable_memory_base := 0\<rparr>))))
   \<and> prefetchable_memory_base (type1 (config_m (bridge_of (open_windows\<lparr>prefetchable_memory_base := 0\<rparr>))))
       AND 0xf \<noteq> 1
   \<and> drop_bit 32 (base (prefetch_range (bridge_of (open_windows\<lparr>prefetchable_memory_base := 0\<rparr>)))) = 0
   \<and> drop_bit 32 (limit (prefetch_range (bridge_of (open_windows\<lparr>prefetchable_memory_base := 0\<rparr>)))) = 0"
proof -
  have h1: "prefetchable_memory_base (type1 (config_m (bridge_of open_windows)))
              \<le> prefetchable_memory_limit (type1 (config_m (bridge_of open_windows)))"
    by (simp add: sample_defs)
  have n1: "prefetchable_memory_base (type1 (config_m (bridge_of open_windows))) AND 0xf = 1"
    by (simp add: sample_defs)
  have u1: "(ucast (prefetchable_base_upper (type1 (config_m (bridge_of open_windows)))) :: 64 word) = 4"
      "(ucast (prefetchable_limit_upper (type1 (config_m (bridge_of open_windows)))) :: 64 word) = 4"
    by (simp_all add: sample_defs)
  have h2: "prefetchable_memory_base (type1 (config_m (bridge_of (open_windows\<lparr>prefetchable_memory_base := 0\<rparr>))))
              \<le> prefetchable_memory_limit (type1 (config_m (bridge_of (open_windows\<lparr>prefetchable_memory_base := 0\<rparr>))))"
    by (simp add: sample_defs)
  have n2: "prefetchable_memory_base (type1 (config_m (bridge_of (open_windows\<lparr>prefetchable_memory_base := 0\<rparr>))))
              AND 0xf \<noteq> 1"
    by (simp add: sample_defs)
  show ?thesis
    using h1 n1 u1 h2 n2 prefetch_range_upper_bits [OF h1] prefetch_range_upper_bits [OF h2]
    by simp
qed

text \<open>
  Claim C10. For the I/O and the memory decoder, a raw limit field that is not below the
  raw base field gives a decoded base that is not above the decoded limit; the decoded
  base is aligned to 4 KiB (I/O) or 1 MiB (memory), and the low 12 (I/O) or 20 (memory) bits
  of the decoded limit are all ones.
\<close>

theorem io_mem_range_ordered_aligned:
  "(io_base (type1 (config_m br)) \<le> io_limit (type1 (config_m br)) \<longrightarrow>
      base (io_range br) \<le> limit (io_range br)
      \<and> base (io_range br) AND 0xfff = 0
      \<and> limit (io_range br) AND 0xfff = 0xfff)
   \<and> (memory_base (type1 (config_m br)) \<le> memory_limit (type1 (config_m br)) \<longrightarrow>
      base (mem_range br) \<le> limit (mem_range br)
      \<and> base (mem_range br) AND 0xfffff = 0
      \<and> limit (mem_range br) AND 0xfffff = 0xfffff)"
proof (intro conjI impI)
  assume le: "io_base (type1 (config_m br)) \<le> io_limit (type1 (config_m br))"
  show "base (io_range br) \<le> limit (io_range br)"
    by (rule io_range_ordered)
  show "base (io_range br) AND 0xfff = 0"
    unfolding io_range_open [OF le] by (simp add: aligned_12)
  show "limit (io_range br) AND 0xfff = 0xfff"
    unfolding io_range_open [OF le] by (simp add: ones_12)
next
  assume le: "memory_base (type1 (config_m br)) \<le> memory_limit (type1 (config_m br))"
  show "base (mem_range br) \<le> limit (mem_range br)"
    by (rule mem_range_ordered)
  show "base (mem_range br) AND 0xfffff = 0"
    unfolding mem_range_open [OF le] by (simp add: aligned_20)
  show "limit (mem_range br) AND 0xfffff = 0xfffff"
    unfolding mem_range_open [OF le] by (simp add: ones_20)
qed

theorem io_mem_range_ordered_aligned_witness:
  "io_base (type1 (config_m (bridge_of open_windows)))
     \<le> io_limit (type1 (config_m (bridge_of open_windows)))
   \<and> memory_base (type1 (config_m (bridge_of open_windows)))
     \<le> memory_limit (type1 (config_m (bridge_of open_windows)))
   \<and> io_range (bridge_of open_windows) = \<lparr>base = 0x2000, limit = 0x3FFF\<rparr>
   \<and> base (io_range (bridge_of open_windows)) \<le> limit (io_range (bridge_of open_windows))
   \<and> base (io_range (bridge_of open_windows)) AND 0xfff = 0
   \<and> limit (io_range (bridge_of open_windows)) AND 0xfff = 0xfff
   \<and> base (mem_range (bridge_of open_windows)) \<le> limit (mem_range (bridge_of open_windows))
   \<and> base (mem_range (bridge_of open_windows)) AND 0xfffff = 0
   \<and> limit (mem_range (bridge_of open_windows)) AND 0xfffff = 0xfffff"
proof -
  have h: "io_base (type1 (config_m (bridge_of open_windows)))
             \<le> io_limit (type1 (config_m (bridge_of open_windows)))"
      "memory_base (type1 (config_m (bridge_of open_windows)))
         \<le> memory_limit (type1 (config_m (bridge_of open_windows)))"
    by (simp_all add: sample_defs)
  have v: "io_range (bridge_of open_windows) = \<lparr>base = 0x2000, limit = 0x3FFF\<rparr>"
    by (simp add: io_range_def sample_defs)
  show ?thesis
    using h v io_mem_range_ordered_aligned [of "bridge_of open_windows"] by blast
qed

section \<open>bridge::probe\<close>

text \<open>
  Claim C6. When the read of the vendor-id register returns a status other than
  \<open>NO_ERROR\<close>, or returns the value \<open>0xffff\<close>, \<open>probe\<close> returns \<open>ERR_NOT_FOUND\<close> with
  \<open>*out_bridge\<close> null, and the kernel state is the initial one with a single event added
  to the log, the vendor-id read: no bridge is allocated and no other register is read.
\<close>

theorem probe_absent_not_found:
  assumes "fst (pci_read_config_half p loc PCI_CONFIG_VENDOR_ID) \<noteq> NO_ERROR
           \<or> snd (pci_read_config_half p loc PCI_CONFIG_VENDOR_ID) = 0xffff"
  shows "probe p loc parent s
           = Inr (ERR_NOT_FOUND, None,
                  s\<lparr>trace := trace s @ [Read_config_half loc PCI_CONFIG_VENDOR_ID]\<rparr>)"
  using assms by (auto simp add: probe_def Let_def log_def split: prod.splits)

theorem probe_absent_not_found_witness:
  "probe (fixed_platform (NO_ERROR, 0xffff) (NO_ERROR, 1) (NO_ERROR, scenario_config 2 5)
            (NO_ERROR, Some 7)) sample_loc None boot_state
     = Inr (ERR_NOT_FOUND, None,
            boot_state\<lparr>trace := [Read_config_half sample_loc PCI_CONFIG_VENDOR_ID]\<rparr>)
   \<and> probe (fixed_platform (- 5, 0x8086) (NO_ERROR, 1) (NO_ERROR, scenario_config 2 5)
            (NO_ERROR, Some 7)) sample_loc None boot_state
     = Inr (ERR_NOT_FOUND, None,
            boot_state\<lparr>trace := [Read_config_half sample_loc PCI_CONFIG_VENDOR_ID]\<rparr>)"
proof -
  let ?p1 = "fixed_platform (NO_ERROR, 0xffff) (NO_ERROR, 1) (NO_ERROR, scenario_config 2 5)
               (NO_ERROR, Some 7)"
  let ?p2 = "fixed_platform (- 5, 0x8086) (NO_ERROR, 1) (NO_ERROR, scenario_config 2 5)
               (NO_ERROR, Some 7)"
  have h1: "fst (pci_read_config_half ?p1 sample_loc PCI_CONFIG_VENDOR_ID) \<noteq> NO_ERROR
            \<or> snd (pci_read_config_half ?p1 sample_loc PCI_CONFIG_VENDOR_ID) = 0xffff"
    by (simp add: fixed_platform_def)
  have h2: "fst (pci_read_config_half ?p2 sample_loc PCI_CONFIG_VENDOR_ID) \<noteq> NO_ERROR
            \<or> snd (pci_read_config_half ?p2 sample_loc PCI_CONFIG_VENDOR_ID) = 0xffff"
    by (simp add: fixed_platform_def NO_ERROR_def)
  show ?thesis
    using probe_absent_not_found [OF h1, of None boot_state]
      probe_absent_not_found [OF h2, of None boot_state]
    by (simp add: boot_state_def)
qed

text \<open>
  Claim C7. When the two register reads succeed and the structured read of the type-1
  configuration returns a negative status, \<open>probe\<close> returns that status with
  \<open>*out_bridge\<close> null, and the bridge allocated just before is deleted again (the heap
  holds nothing at its address; the log ends with the deletion). Conversely, whenever
  \<open>probe\<close> returns a non-null \<open>*out_bridge\<close>, the structured read did not fail and the
  published bridge holds exactly the configuration that read returned.
\<close>

theorem probe_config_failure_rolls_back:
  "(\<forall>vid ht err3 cfg.
      pci_read_config_half p loc PCI_CONFIG_VENDOR_ID = (NO_ERROR, vid) \<and> vid \<noteq> 0xffff
      \<and> pci_read_config_byte p loc PCI_CONFIG_HEADER_TYPE = (NO_ERROR, ht)
      \<and> pci_read_config p loc = (err3, cfg) \<and> err3 < 0
      \<longrightarrow> (\<exists>s'. probe p loc parent s = Inr (err3, None, s')
             \<and> bridges s' = (bridges s)(next_bridge s := None)
             \<and> trace s' = trace s @ [Read_config_half loc PCI_CONFIG_VENDOR_ID,
                                      Read_config_byte loc PCI_CONFIG_HEADER_TYPE,
                                      New_bridge (next_bridge s), Read_config loc,
                                      Delete_bridge (next_bridge s)]))
   \<and> (\<forall>err a s'.
        probe p loc parent s = Inr (err, Some a, s')
        \<longrightarrow> \<not> fst (pci_read_config p loc) < 0
            \<and> (\<exists>br. bridges s' a = Some br \<and> config_m br = snd (pci_read_config p loc)))"
  by (auto simp add: probe_unfold split: prod.splits if_splits option.splits)

theorem probe_config_failure_rolls_back_witness:
  "(\<exists>s'. probe (fixed_platform (NO_ERROR, 0x8086) (NO_ERROR, 1) (- 5, zero_config)
                  (NO_ERROR, Some 7)) sample_loc None boot_state = Inr (- 5, None, s')
         \<and> bridges s' = Map.empty
         \<and> trace s' = [Read_config_half sample_loc PCI_CONFIG_VENDOR_ID,
                        Read_config_byte sample_loc PCI_CONFIG_HEADER_TYPE,
                        New_bridge 0, Read_config sample_loc, Delete_bridge 0])
   \<and> (\<exists>s' br. probe (fixed_platform (NO_ERROR, 0x8086) (NO_ERROR, 1)
                       (NO_ERROR, scenario_config 0 0) (NO_ERROR, Some 7))
                 sample_loc None boot_state = Inr (NO_ERROR, Some 0, s')
         \<and> bridges s' 0 = Some br \<and> config_m br = scenario_config 0 0)"
proof -
  let ?p1 = "fixed_platform (NO_ERROR, 0x8086) (NO_ERROR, 1) (- 5, zero_config) (NO_ERROR, Some 7)"
  let ?p2 = "fixed_platform (NO_ERROR, 0x8086) (NO_ERROR, 1) (NO_ERROR, scenario_config 0 0)
               (NO_ERROR, Some 7)"
  have h1: "pci_read_config_half ?p1 sample_loc PCI_CONFIG_VENDOR_ID = (NO_ERROR, 0x8086)
            \<and> (0x8086 :: 16 word) \<noteq> 0xffff
            \<and> pci_read_config_byte ?p1 sample_loc PCI_CONFIG_HEADER_TYPE = (NO_ERROR, 1)
            \<and> pci_read_config ?p1 sample_loc = (- 5, zero_config) \<and> (- 5 :: int) < 0"
    by (simp add: fixed_platform_def)
  from probe_config_failure_rolls_back [of ?p1 sample_loc None boot_state] h1
  have a: "\<exists>s'. probe ?p1 sample_loc None boot_state = Inr (- 5, None, s')
             \<and> bridges s' = (bridges boot_state)(next_bridge boot_state := None)
             \<and> trace s' = trace boot_state @ [Read_config_half sample_loc PCI_CONFIG_VENDOR_ID,
                                      Read_config_byte sample_loc PCI_CONFIG_HEADER_TYPE,
                                      New_bridge (next_bridge boot_state), Read_config sample_loc,
                                      Delete_bridge (next_bridge boot_state)]"
    by blast
  obtain s2 where h2: "probe ?p2 sample_loc None boot_state = Inr (NO_ERROR, Some 0, s2)"
    by (simp add: probe_unfold sample_defs NO_ERROR_def)
  from probe_config_failure_rolls_back [of ?p2 sample_loc None boot_state] h2
  have "\<exists>br. bridges s2 0 = Some br \<and> config_m br = snd (pci_read_config ?p2 sample_loc)"
    by blast
  then have b: "\<exists>br. bridges s2 0 = Some br \<and> config_m br = scenario_config 0 0"
    by (simp add: fixed_platform_def)
  from a have a': "\<exists>s'. probe ?p1 sample_loc None boot_state = Inr (- 5, None, s')
         \<and> bridges s' = Map.empty
         \<and> trace s' = [Read_config_half sample_loc PCI_CONFIG_VENDOR_ID,
                        Read_config_byte sample_loc PCI_CONFIG_HEADER_TYPE,
                        New_bridge 0, Read_config sample_loc, Delete_bridge 0]"
    by (simp add: boot_state_def)
  from a' h2 b show ?thesis by blast
qed

text \<open>
  Claim C1. When the two register reads and the structured read succeed, the secondary
  bus number is positive and not above the subordinate bus number, and the scan of the
  secondary bus returns a negative status, \<open>probe\<close> returns that failure status while
  \<open>*out_bridge\<close> points to the new bridge, which is on the heap with the complete
  configuration that was read (so its decoded ranges are those of that configuration) and
  with no secondary bus attached.
\<close>

theorem probe_downstream_failure_keeps_bridge:
  assumes "pci_read_config_half p loc PCI_CONFIG_VENDOR_ID = (NO_ERROR, vid)" and "vid \<noteq> 0xffff"
    and "pci_read_config_byte p loc PCI_CONFIG_HEADER_TYPE = (NO_ERROR, ht)"
    and "pci_read_config p loc = (err3, cfg)" and "\<not> err3 < 0"
    and "0 < secondary_bus (type1 cfg)" and "secondary_bus (type1 cfg) \<le> subordinate_bus (type1 cfg)"
    and "bus_probe p \<lparr>segment = segment loc, bus = secondary_bus (type1 cfg), dev = 0, fn = 0\<rparr>
           (next_bridge s) = (err4, nb)"
    and "err4 < 0"
  shows "\<exists>s' br. probe p loc parent s = Inr (err4, Some (next_bridge s), s')
            \<and> err4 \<noteq> NO_ERROR
            \<and> bridges s' (next_bridge s) = Some br
            \<and> br = \<lparr>loc_m = loc, bus_m = parent, config_m = cfg, secondary_bus_m = None\<rparr>
            \<and> io_range br = io_range (bridge_ctor loc parent\<lparr>config_m := cfg\<rparr>)
            \<and> mem_range br = mem_range (bridge_ctor loc parent\<lparr>config_m := cfg\<rparr>)
            \<and> prefetch_range br = prefetch_range (bridge_ctor loc parent\<lparr>config_m := cfg\<rparr>)"
  using assms by (simp add: probe_unfold NO_ERROR_def)

theorem probe_downstream_failure_keeps_bridge_witness:
  "\<exists>s'. probe (fixed_platform (NO_ERROR, 0x8086) (NO_ERROR, 1)
                 (NO_ERROR, zero_config\<lparr>type1 := open_windows\<rparr>) (- 1, None))
           sample_loc None boot_state = Inr (- 1, Some 0, s')
        \<and> bridges s' 0 = Some (bridge_of open_windows)
        \<and> mem_range (bridge_of open_windows) = \<lparr>base = 0xE0000000, limit = 0xE01FFFFF\<rparr>"
proof -
  let ?p = "fixed_platform (NO_ERROR, 0x8086) (NO_ERROR, 1)
              (NO_ERROR, zero_config\<lparr>type1 := open_windows\<rparr>) (- 1, None)"
  have h: "pci_read_config_half ?p sample_loc PCI_CONFIG_VENDOR_ID = (NO_ERROR, 0x8086)"
      "(0x8086 :: 16 word) \<noteq> 0xffff"
      "pci_read_config_byte ?p sample_loc PCI_CONFIG_HEADER_TYPE = (NO_ERROR, 1)"
      "pci_read_config ?p sample_loc = (NO_ERROR, zero_config\<lparr>type1 := open_windows\<rparr>)"
      "\<not> NO_ERROR < 0"
      "0 < secondary_bus (type1 (zero_config\<lparr>type1 := open_windows\<rparr>))"
      "secondary_bus (type1 (zero_config\<lparr>type1 := open_windows\<rparr>))
         \<le> subordinate_bus (type1 (zero_config\<lparr>type1 := open_windows\<rparr>))"
      "bus_probe ?p \<lparr>segment = segment sample_loc,
                      bus = secondary_bus (type1 (zero_config\<lparr>type1 := open_windows\<rparr>)),
                      dev = 0, fn = 0\<rparr> (next_bridge boot_state) = (- 1, None)"
      "(- 1 :: int) < 0"
    by (simp_all add: fixed_platform_def NO_ERROR_def open_windows_def zero_type1_def zero_config_def)
  have m: "mem_range (bridge_of open_windows) = \<lparr>base = 0xE0000000, limit = 0xE01FFFFF\<rparr>"
    by (simp add: mem_range_def sample_defs)
  from probe_downstream_failure_keeps_bridge [OF h, of None]
  have "\<exists>s'. probe ?p sample_loc None boot_state = Inr (- 1, Some (next_bridge boot_state), s')
          \<and> bridges s' (next_bridge boot_state)
               = Some \<lparr>loc_m = sample_loc, bus_m = None,
                        config_m = zero_config\<lparr>type1 := open_windows\<rparr>, secondary_bus_m = None\<rparr>"
    by blast
  then show ?thesis using m by (simp add: boot_state_def bridge_of_def)
qed

text \<open>
  Claim C8. Whenever \<open>probe\<close> publishes a bridge, a scan of the secondary bus was started,
  or a secondary bus is attached to the bridge, only if the secondary bus number is positive
  and not above the subordinate bus number. In particular, when the reads succeed and
  the secondary bus number is 0, \<open>probe\<close> returns \<open>NO_ERROR\<close>, publishes the bridge with
  no secondary bus attached, and the log gains the two register reads, the allocation, the
  structured read and the capability probe, and no bus scan.
\<close>

theorem downstream_only_when_sane:
  "(\<forall>err a s'. probe p loc parent s = Inr (err, Some a, s') \<longrightarrow>
      (\<exists>br. bridges s' a = Some br
         \<and> ((secondary_bus_m br \<noteq> None
               \<or> (\<exists>l x. Bus_probe l x \<in> set (drop (length (trace s)) (trace s'))))
              \<longrightarrow> 0 < secondary_bus (type1 (config_m br))
                  \<and> secondary_bus (type1 (config_m br)) \<le> subordinate_bus (type1 (config_m br)))))
   \<and> (\<forall>vid ht err3 cfg.
        pci_read_config_half p loc PCI_CONFIG_VENDOR_ID = (NO_ERROR, vid) \<and> vid \<noteq> 0xffff
        \<and> pci_read_config_byte p loc PCI_CONFIG_HEADER_TYPE = (NO_ERROR, ht)
        \<and> pci_read_config p loc = (err3, cfg) \<and> \<not> err3 < 0
        \<and> secondary_bus (type1 cfg) = 0
        \<longrightarrow> probe p loc parent s
              = Inr (NO_ERROR, Some (next_bridge s),
                     s\<lparr>bridges := (bridges s)(next_bridge s \<mapsto>
                          \<lparr>loc_m = loc, bus_m = parent, config_m = cfg, secondary_bus_m = None\<rparr>),
                       next_bridge := Suc (next_bridge s),
                       trace := trace s @ [Read_config_half loc PCI_CONFIG_VENDOR_ID,
                                           Read_config_byte loc PCI_CONFIG_HEADER_TYPE,
                                           New_bridge (next_bridge s), Read_config loc,
                                           Probe_capabilities (next_bridge s)]\<rparr>))"
  by (auto simp add: probe_unfold split: prod.splits if_splits option.splits)

theorem downstream_only_when_sane_witness:
  "(\<exists>s'. probe (fixed_platform (NO_ERROR, 0x8086) (NO_ERROR, 1) (NO_ERROR, scenario_config 2 5)
                  (NO_ERROR, Some 7)) sample_loc None boot_state = Inr (NO_ERROR, Some 0, s')
         \<and> bridges s' 0 = Some (scenario_bridge 2 5 (Some 7)))
   \<and> secondary_bus_m (scenario_bridge 2 5 (Some 7)) \<noteq> None
   \<and> 0 < secondary_bus (type1 (config_m (scenario_bridge 2 5 (Some 7))))
   \<and> secondary_bus (type1 (config_m (scenario_bridge 2 5 (Some 7))))
       \<le> subordinate_bus (type1 (config_m (scenario_bridge 2 5 (Some 7))))
   \<and> probe (fixed_platform (NO_ERROR, 0x8086) (NO_ERROR, 1) (NO_ERROR, scenario_config 0 5)
              (NO_ERROR, Some 7)) sample_loc None boot_state
       = Inr (NO_ERROR, Some 0,
              \<lparr>bridges = [0 \<mapsto> scenario_bridge 0 5 None], next_bridge = 1, global_bus_list = [],
               trace = [Read_config_half sample_loc PCI_CONFIG_VENDOR_ID,
                        Read_config_byte sample_loc PCI_CONFIG_HEADER_TYPE,
                        New_bridge 0, Read_config sample_loc, Probe_capabilities 0]\<rparr>)"
proof -
  let ?p1 = "fixed_platform (NO_ERROR, 0x8086) (NO_ERROR, 1) (NO_ERROR, scenario_config 2 5)
               (NO_ERROR, Some 7)"
  let ?p2 = "fixed_platform (NO_ERROR, 0x8086) (NO_ERROR, 1) (NO_ERROR, scenario_config 0 5)
               (NO_ERROR, Some 7)"
  obtain s1 where h1: "probe ?p1 sample_loc None boot_state = Inr (NO_ERROR, Some 0, s1)"
      and b1: "bridges s1 0 = Some (scenario_bridge 2 5 (Some 7))"
    by (simp add: probe_unfold sample_defs NO_ERROR_def)
  have n1: "secondary_bus_m (scenario_bridge 2 5 (Some 7)) \<noteq> None"
    by (simp add: scenario_bridge_def)
  from downstream_only_when_sane [of ?p1 sample_loc None boot_state] h1
  obtain br where "bridges s1 0 = Some br"
    and "secondary_bus_m br \<noteq> None
           \<longrightarrow> 0 < secondary_bus (type1 (config_m br))
               \<and> secondary_bus (type1 (config_m br)) \<le> subordinate_bus (type1 (config_m br))"
    by blast
  with b1 n1 have c1: "0 < secondary_bus (type1 (config_m (scenario_bridge 2 5 (Some 7))))
      \<and> secondary_bus (type1 (config_m (scenario_bridge 2 5 (Some 7))))
          \<le> subordinate_bus (type1 (config_m (scenario_bridge 2 5 (Some 7))))"
    by simp
  have h2: "pci_read_config_half ?p2 sample_loc PCI_CONFIG_VENDOR_ID = (NO_ERROR, 0x8086)
            \<and> (0x8086 :: 16 word) \<noteq> 0xffff
            \<and> pci_read_config_byte ?p2 sample_loc PCI_CONFIG_HEADER_TYPE = (NO_ERROR, 1)
            \<and> pci_read_config ?p2 sample_loc = (NO_ERROR, scenario_config 0 5) \<and> \<not> NO_ERROR < 0
            \<and> secondary_bus (type1 (scenario_config 0 5)) = 0"
    by (simp add: fixed_platform_def scenario_config_def NO_ERROR_def)
  from downstream_only_when_sane [of ?p2 sample_loc None boot_state] h2
  have "probe ?p2 sample_loc None boot_state
      = Inr (NO_ERROR, Some (next_bridge boot_state),
             boot_state\<lparr>bridges := (bridges boot_state)(next_bridge boot_state \<mapsto>
                  \<lparr>loc_m = sample_loc, bus_m = None, config_m = scenario_config 0 5,
                   secondary_bus_m = None\<rparr>),
               next_bridge := Suc (next_bridge boot_state),
               trace := trace boot_state @ [Read_config_half sample_loc PCI_CONFIG_VENDOR_ID,
                                   Read_config_byte sample_loc PCI_CONFIG_HEADER_TYPE,
                                   New_bridge (next_bridge boot_state), Read_config sample_loc,
                                   Probe_capabilities (next_bridge boot_state)]\<rparr>)"
    by blast
  then have c2: "probe ?p2 sample_loc None boot_state
       = Inr (NO_ERROR, Some 0,
              \<lparr>bridges = [0 \<mapsto> scenario_bridge 0 5 None], next_bridge = 1, global_bus_list = [],
               trace = [Read_config_half sample_loc PCI_CONFIG_VENDOR_ID,
                        Read_config_byte sample_loc PCI_CONFIG_HEADER_TYPE,
                        New_bridge 0, Read_config sample_loc, Probe_capabilities 0]\<rparr>)"
    by (simp add: boot_state_def scenario_bridge_def)
  from h1 b1 n1 c1 c2 show ?thesis by blast
qed

text \<open>
  Claim C9. When the reads succeed, the bus numbers call for a scan of the secondary bus,
  and that scan returns a non-negative status and a bus, \<open>probe\<close> returns \<open>NO_ERROR\<close> and
  the calls it has added to the log are, in this order: the two register reads, the
  allocation, the structured read of the configuration, the capability probe, the scan
  of the secondary bus, the attachment of the returned bus to the bridge, and the
  registration of that bus in the global list.
\<close>

theorem downstream_call_order:
  assumes "pci_read_config_half p loc PCI_CONFIG_VENDOR_ID = (NO_ERROR, vid)" and "vid \<noteq> 0xffff"
    and "pci_read_config_byte p loc PCI_CONFIG_HEADER_TYPE = (NO_ERROR, ht)"
    and "pci_read_config p loc = (err3, cfg)" and "\<not> err3 < 0"
    and "0 < secondary_bus (type1 cfg)" and "secondary_bus (type1 cfg) \<le> subordinate_bus (type1 cfg)"
    and "bus_probe p \<lparr>segment = segment loc, bus = secondary_bus (type1 cfg), dev = 0, fn = 0\<rparr>
           (next_bridge s) = (err4, Some b)"
    and "\<not> err4 < 0"
  shows "\<exists>s'. probe p loc parent s = Inr (NO_ERROR, Some (next_bridge s), s')
           \<and> trace s' = trace s @
                [Read_config_half loc PCI_CONFIG_VENDOR_ID,
                 Read_config_byte loc PCI_CONFIG_HEADER_TYPE,
                 New_bridge (next_bridge s),
                 Read_config loc,
                 Probe_capabilities (next_bridge s),
                 Bus_probe \<lparr>segment = segment loc, bus = secondary_bus (type1 cfg), dev = 0, fn = 0\<rparr>
                   (next_bridge s),
                 Add_bus (next_bridge s) b,
                 Add_to_global_list b]
           \<and> bridges s' (next_bridge s)
                = Some \<lparr>loc_m = loc, bus_m = parent, config_m = cfg, secondary_bus_m = Some b\<rparr>
           \<and> global_bus_list s' = global_bus_list s @ [b]"
  using assms by (simp add: probe_unfold)

theorem downstream_call_order_witness:
  "\<exists>s'. probe (fixed_platform (NO_ERROR, 0x8086) (NO_ERROR, 1) (NO_ERROR, scenario_config 2 5)
                 (NO_ERROR, Some 7)) sample_loc None boot_state = Inr (NO_ERROR, Some 0, s')
        \<and> trace s' = [Read_config_half sample_loc PCI_CONFIG_VENDOR_ID,
                       Read_config_byte sample_loc PCI_CONFIG_HEADER_TYPE,
                       New_bridge 0, Read_config sample_loc, Probe_capabilities 0,
                       Bus_probe \<lparr>segment = 0, bus = 2, dev = 0, fn = 0\<rparr> 0,
                       Add_bus 0 7, Add_to_global_list 7]
        \<and> bridges s' 0 = Some (scenario_bridge 2 5 (Some 7))
        \<and> global_bus_list s' = [7]"
proof -
  let ?p = "fixed_platform (NO_ERROR, 0x8086) (NO_ERROR, 1) (NO_ERROR, scenario_config 2 5)
              (NO_ERROR, Some 7)"
  have h: "pci_read_config_half ?p sample_loc PCI_CONFIG_VENDOR_ID = (NO_ERROR, 0x8086)"
      "(0x8086 :: 16 word) \<noteq> 0xffff"
      "pci_read_config_byte ?p sample_loc PCI_CONFIG_HEADER_TYPE = (NO_ERROR, 1)"
      "pci_read_config ?p sample_loc = (NO_ERROR, scenario_config 2 5)"
      "\<not> NO_ERROR < 0"
      "0 < secondary_bus (type1 (scenario_config 2 5))"
      "secondary_bus (type1 (scenario_config 2 5)) \<le> subordinate_bus (type1 (scenario_config 2 5))"
      "bus_probe ?p \<lparr>segment = segment sample_loc, bus = secondary_bus (type1 (scenario_config 2 5)),
                      dev = 0, fn = 0\<rparr> (next_bridge boot_state) = (NO_ERROR, Some 7)"
      "\<not> NO_ERROR < 0"
    by (simp_all add: fixed_platform_def NO_ERROR_def scenario_config_def)
  from downstream_call_order [OF h, of None]
  show ?thesis
    by (simp add: boot_state_def scenario_bridge_def scenario_config_def sample_loc_def)
qed

text \<open>
  Claim C5, as amended. For a location whose vendor id reads \<open>0x8086\<close>, whose header type
  reads 1 and whose configuration has secondary bus 2, subordinate bus 5 and all-zero
  I/O, memory and prefetchable base and limit fields, and whose scan of the secondary bus
  returns a negative status or a bus: \<open>probe\<close> publishes the bridge; the decoded ranges of
  the bridge are \<open>[0, 0xfff]\<close> for I/O and \<open>[0, 0xfffff]\<close> for memory and for prefetchable
  memory (a limit field equal to the base field is an open window of one granule, not the
  empty range); the scan is started for bus number 2 of the same segment; and \<open>probe\<close>
  returns \<open>NO_ERROR\<close> when the status of the scan is not negative, and that negative
  status otherwise.
\<close>

theorem scenario_A_probe:
  assumes "pci_read_config_half p loc PCI_CONFIG_VENDOR_ID = (NO_ERROR, 0x8086)"
    and "pci_read_config_byte p loc PCI_CONFIG_HEADER_TYPE = (NO_ERROR, 1)"
    and "pci_read_config p loc = (NO_ERROR, cfg)"
    and "secondary_bus (type1 cfg) = 2" and "subordinate_bus (type1 cfg) = 5"
    and "io_base (type1 cfg) = 0" and "io_limit (type1 cfg) = 0"
    and "memory_base (type1 cfg) = 0" and "memory_limit (type1 cfg) = 0"
    and "prefetchable_memory_base (type1 cfg) = 0" and "prefetchable_memory_limit (type1 cfg) = 0"
    and "bus_probe p \<lparr>segment = segment loc, bus = 2, dev = 0, fn = 0\<rparr> (next_bridge s) = (err4, nb)"
    and "err4 < 0 \<or> nb \<noteq> None"
  shows "\<exists>s' br. probe p loc parent s
                   = Inr (if err4 < 0 then err4 else NO_ERROR, Some (next_bridge s), s')
           \<and> bridges s' (next_bridge s) = Some br
           \<and> io_range br = \<lparr>base = 0, limit = 0xfff\<rparr>
           \<and> mem_range br = \<lparr>base = 0, limit = 0xfffff\<rparr>
           \<and> prefetch_range br = \<lparr>base = 0, limit = 0xfffff\<rparr>
           \<and> Bus_probe \<lparr>segment = segment loc, bus = 2, dev = 0, fn = 0\<rparr> (next_bridge s)
                 \<in> set (drop (length (trace s)) (trace s'))"
proof (cases "err4 < 0")
  case True
  with assms show ?thesis
    by (simp add: probe_unfold NO_ERROR_def io_range_def mem_range_def prefetch_range_def)
next
  case False
  with assms obtain b where "nb = Some b" by auto
  with False assms show ?thesis
    by (simp add: probe_unfold NO_ERROR_def io_range_def mem_range_def prefetch_range_def)
qed

theorem scenario_A_probe_witness:
  "(\<exists>s' br. probe (fixed_platform (NO_ERROR, 0x8086) (NO_ERROR, 1) (NO_ERROR, scenario_config 2 5)
                    (NO_ERROR, Some 7)) sample_loc None boot_state = Inr (NO_ERROR, Some 0, s')
           \<and> bridges s' 0 = Some br
           \<and> io_range br = \<lparr>base = 0, limit = 0xfff\<rparr>
           \<and> mem_range br = \<lparr>base = 0, limit = 0xfffff\<rparr>
           \<and> prefetch_range br = \<lparr>base = 0, limit = 0xfffff\<rparr>
           \<and> Bus_probe \<lparr>segment = 0, bus = 2, dev = 0, fn = 0\<rparr> 0 \<in> set (trace s'))
   \<and> (\<exists>s' br. probe (fixed_platform (NO_ERROR, 0x8086) (NO_ERROR, 1) (NO_ERROR, scenario_config 2 5)
                    (- 1, None)) sample_loc None boot_state = Inr (- 1, Some 0, s')
           \<and> bridges s' 0 = Some br
           \<and> io_range br = \<lparr>base = 0, limit = 0xfff\<rparr>
           \<and> mem_range br = \<lparr>base = 0, limit = 0xfffff\<rparr>
           \<and> prefetch_range br = \<lparr>base = 0, limit = 0xfffff\<rparr>
           \<and> Bus_probe \<lparr>segment = 0, bus = 2, dev = 0, fn = 0\<rparr> 0 \<in> set (trace s'))"
proof -
  let ?p = "fixed_platform (NO_ERROR, 0x8086) (NO_ERROR, 1) (NO_ERROR, scenario_config 2 5)
              (NO_ERROR, Some 7)"
  let ?q = "fixed_platform (NO_ERROR, 0x8086) (NO_ERROR, 1) (NO_ERROR, scenario_config 2 5)
              (- 1, None)"
  have c: "secondary_bus (type1 (scenario_config 2 5)) = 2"
      "subordinate_bus (type1 (scenario_config 2 5)) = 5"
      "io_base (type1 (scenario_config 2 5)) = 0" "io_limit (type1 (scenario_config 2 5)) = 0"
      "memory_base (type1 (scenario_config 2 5)) = 0" "memory_limit (type1 (scenario_config 2 5)) = 0"
      "prefetchable_memory_base (type1 (scenario_config 2 5)) = 0"
      "prefetchable_memory_limit (type1 (scenario_config 2 5)) = 0"
    by (simp_all add: scenario_config_def zero_type1_def)
  have hp: "pci_read_config_half ?p sample_loc PCI_CONFIG_VENDOR_ID = (NO_ERROR, 0x8086)"
      "pci_read_config_byte ?p sample_loc PCI_CONFIG_HEADER_TYPE = (NO_ERROR, 1)"
      "pci_read_config ?p sample_loc = (NO_ERROR, scenario_config 2 5)"
    by (simp_all add: fixed_platform_def)
  have bp: "bus_probe ?p \<lparr>segment = segment sample_loc, bus = 2, dev = 0, fn = 0\<rparr>
              (next_bridge boot_state) = (NO_ERROR, Some 7)"
      "NO_ERROR < 0 \<or> Some (7 :: bus_ptr) \<noteq> None"
    by (simp_all add: fixed_platform_def)
  have hq: "pci_read_config_half ?q sample_loc PCI_CONFIG_VENDOR_ID = (NO_ERROR, 0x8086)"
      "pci_read_config_byte ?q sample_loc PCI_CONFIG_HEADER_TYPE = (NO_ERROR, 1)"
      "pci_read_config ?q sample_loc = (NO_ERROR, scenario_config 2 5)"
    by (simp_all add: fixed_platform_def)
  have bq: "bus_probe ?q \<lparr>segment = segment sample_loc, bus = 2, dev = 0, fn = 0\<rparr>
              (next_bridge boot_state) = (- 1, None)"
      "(- 1 :: status_t) < 0 \<or> (None :: bus_ptr option) \<noteq> None"
    by (simp_all add: fixed_platform_def)
  from scenario_A_probe [OF hp c bp, of None] scenario_A_probe [OF hq c bq, of None]
  show ?thesis
    by (simp add: boot_state_def sample_loc_def NO_ERROR_def)
qed

theorem scenario_A_counterexample:
  "probe (fixed_platform (NO_ERROR, 0x8086) (NO_ERROR, 1) (NO_ERROR, scenario_config 2 5)
            (NO_ERROR, Some 7)) sample_loc None boot_state
    = Inr (NO_ERROR, Some 0,
           \<lparr>bridges = [0 \<mapsto> scenario_bridge 2 5 (Some 7)], next_bridge = 1, global_bus_list = [7],
            trace = [Read_config_half sample_loc PCI_CONFIG_VENDOR_ID,
                     Read_config_byte sample_loc PCI_CONFIG_HEADER_TYPE,
                     New_bridge 0, Read_config sample_loc, Probe_capabilities 0,
                     Bus_probe \<lparr>segment = 0, bus = 2, dev = 0, fn = 0\<rparr> 0,
                     Add_bus 0 7, Add_to_global_list 7]\<rparr>)
   \<and> io_range (scenario_bridge 2 5 (Some 7)) = \<lparr>base = 0, limit = 0xfff\<rparr>
   \<and> io_range (scenario_bridge 2 5 (Some 7)) \<noteq> \<lparr>base = 0, limit = 0\<rparr>
   \<and> mem_range (scenario_bridge 2 5 (Some 7)) = \<lparr>base = 0, limit = 0xfffff\<rparr>
   \<and> mem_range (scenario_bridge 2 5 (Some 7)) \<noteq> \<lparr>base = 0, limit = 0\<rparr>
   \<and> prefetch_range (scenario_bridge 2 5 (Some 7)) = \<lparr>base = 0, limit = 0xfffff\<rparr>
   \<and> prefetch_range (scenario_bridge 2 5 (Some 7)) \<noteq> \<lparr>base = 0, limit = 0\<rparr>
   \<and> probe (fixed_platform (NO_ERROR, 0x8086) (NO_ERROR, 1) (NO_ERROR, scenario_config 2 5)
              (- 1, None)) sample_loc None boot_state
    = Inr (- 1, Some 0,
           \<lparr>bridges = [0 \<mapsto> scenario_bridge 2 5 None], next_bridge = 1, global_bus_list = [],
            trace = [Read_config_half sample_loc PCI_CONFIG_VENDOR_ID,
                     Read_config_byte sample_loc PCI_CONFIG_HEADER_TYPE,
                     New_bridge 0, Read_config sample_loc, Probe_capabilities 0,
                     Bus_probe \<lparr>segment = 0, bus = 2, dev = 0, fn = 0\<rparr> 0]\<rparr>)
   \<and> (- 1 :: status_t) \<noteq> NO_ERROR"
  by (simp add: probe_unfold sample_defs NO_ERROR_def io_range_def mem_range_def prefetch_range_def)

end
